theory Spec2Isabelle
  imports Complex_Main
begin

section \<open>Redis + Neo4j movie recommendation layer\<close>

text \<open>
  A shallow embedding of \<^verbatim>\<open>redis_movie_integration_complete.py\<close>: the recommendation
  cache, the rating-set cache, the search functions and the rating write path.

  Conventions of the model.
  \<^item> Time is an integer number of seconds; every function takes the time \<open>now\<close> at which
    it runs (a call is treated as instantaneous).
  \<^item> A Redis key carries an optional absolute expiry time. A key whose expiry time has
    been reached is absent for every command (lazy expiry).
  \<^item> The four key shapes of the program (\<^verbatim>\<open>recs:user:<u>:k:<k>\<close>, \<^verbatim>\<open>user:<u>:ratings\<close>,
    \<^verbatim>\<open>user:<u>:ratings:list\<close>, \<^verbatim>\<open>movie:<id>\<close>) never collide, so the store is one
    typed map per shape, each holding the kind of value the program writes there.
  \<^item> A Redis string written by \<^verbatim>\<open>json.dumps\<close> is modelled by the value that
    \<^verbatim>\<open>json.loads\<close> reads back; any text that \<^verbatim>\<open>json.loads\<close> rejects is \<open>Malformed\<close>.
  \<^item> Ratings are rationals: a float written to a hash is read back by \<^verbatim>\<open>float\<close> as
    the same number, and floating-point rounding is not modelled.
  \<^item> Console prompts are inputs of the functions; printed messages are returned as an
    outcome value. Debug prints are left out.
  \<^item> Connection failures of Redis and Neo4j are not modelled, with one exception: the
    average query of the rating write path may raise (\<open>rate_movie_gateway\<close>).
\<close>

subsection \<open>Python helpers\<close>

definition digit_char :: "nat \<Rightarrow> char" where
  "digit_char n = ''0123456789'' ! n"

fun digits_of :: "nat \<Rightarrow> string" where
  "digits_of n =
     (if n < 10 then [digit_char n] else digits_of (n div 10) @ [digit_char (n mod 10)])"

declare digits_of.simps [simp del]

text \<open>\<^verbatim>\<open>str(i)\<close> for a Python int.\<close>

definition str_of_int :: "int \<Rightarrow> string" where
  "str_of_int i = (if i < 0 then CHR ''-'' # digits_of (nat (- i)) else digits_of (nat i))"

text \<open>
  A \<open>char\<close> stands for a code point below 256, and a string for a Python \<^verbatim>\<open>str\<close> of such
  code points. \<^verbatim>\<open>str.isspace\<close> is true of exactly twelve of them: U+0009 to U+000D,
  U+001C to U+001F, U+0020, U+0085 and U+00A0. \<^verbatim>\<open>str.strip()\<close> removes them from both
  ends.
\<close>

definition py_isspace :: "char \<Rightarrow> bool" where
  "py_isspace c = (c \<in> set [CHR '' '', CHR 0x09, CHR 0x0A, CHR 0x0B, CHR 0x0C, CHR 0x0D,
                               CHR 0x1C, CHR 0x1D, CHR 0x1E, CHR 0x1F, CHR 0x85, CHR 0xA0])"

definition strip :: "string \<Rightarrow> string" where
  "strip s = rev (dropWhile py_isspace (rev (dropWhile py_isspace s)))"

subsection \<open>Data\<close>

type_synonym time = int
type_synonym rating = rat

text \<open>
  A recommendation dict \<^verbatim>\<open>{"movie_id": ..., "predicted_rating": ...}\<close>; the key
  \<^verbatim>\<open>"title"\<close> is added by \<^verbatim>\<open>display_top_5_recommendations\<close> (\<open>None\<close>: key absent).
\<close>

record recommendation =
  movie_id :: int
  predicted_rating :: rat
  title :: "string option"

text \<open>A rated-movie dict \<^verbatim>\<open>{"movie_id": str, "title": ..., "rating": float}\<close>.\<close>

record rated_movie =
  rm_movie_id :: string
  rm_title :: "string option"
  rm_rating :: rating

datatype 'a json_str = Dumped 'a | Malformed

text \<open>The fields of a \<^verbatim>\<open>movie:<id>\<close> hash (\<open>None\<close>: field absent).\<close>

record movie_hash =
  mh_movie_id :: "string option"
  mh_title :: "string option"
  mh_genres :: "string option"
  mh_year :: "string option"
  mh_avg_rating :: "rat option"

datatype key =
    RecsKey int int
  | RatingsKey int
  | RatingsListKey int
  | MovieKey string

text \<open>The key strings built by the f-strings of the source.\<close>

fun key_name :: "key \<Rightarrow> string" where
  "key_name (RecsKey u k) = ''recs:user:'' @ str_of_int u @ '':k:'' @ str_of_int k"
| "key_name (RatingsKey u) = ''user:'' @ str_of_int u @ '':ratings''"
| "key_name (RatingsListKey u) = ''user:'' @ str_of_int u @ '':ratings:list''"
| "key_name (MovieKey m) = ''movie:'' @ m"

text \<open>The mutating commands sent to Redis, in the order they are sent.\<close>

datatype wcmd =
    SETEX key int
  | SET_EX key int
  | HSET key
  | EXPIRE key int
  | DEL key

type_synonym 'v entry = "'v \<times> time option"

record redis =
  recs_str :: "int \<times> int \<rightharpoonup> recommendation list json_str entry"
  ratings_hash :: "int \<rightharpoonup> (string \<rightharpoonup> rating) entry"
  ratings_list_str :: "int \<rightharpoonup> rated_movie list json_str entry"
  movie_hashes :: "string \<rightharpoonup> movie_hash entry"
  writes :: "wcmd list"
  searches :: "(string \<times> nat \<times> nat) list"

datatype exn = ResponseError

datatype cypher =
    TopK int int
  | UpsertRating int int rating
  | AvgRating int

text \<open>
  The part of the Neo4j graph the modelled queries touch: \<^verbatim>\<open>User\<close> node ids,
  \<^verbatim>\<open>Movie\<close> node ids, and the \<^verbatim>\<open>RATED\<close> edges with their rating and \<^verbatim>\<open>ratedAt\<close>;
  \<open>runs\<close> records every \<^verbatim>\<open>session.run\<close>.
\<close>

record neo4j =
  user_nodes :: "int list"
  movie_nodes :: "int list"
  rated :: "((int \<times> int) \<times> (rating \<times> time)) list"
  runs :: "cypher list"

subsection \<open>Redis commands\<close>

definition live :: "time \<Rightarrow> 'v entry \<Rightarrow> bool" where
  "live now e = (case snd e of None \<Rightarrow> True | Some t \<Rightarrow> now < t)"

definition lookup :: "time \<Rightarrow> ('k \<rightharpoonup> 'v entry) \<Rightarrow> 'k \<Rightarrow> 'v entry option" where
  "lookup now m k =
     (case m k of None \<Rightarrow> None | Some e \<Rightarrow> if live now e then Some e else None)"

text \<open>\<^verbatim>\<open>GET\<close> on a recommendation key.\<close>

definition redis_get :: "time \<Rightarrow> redis \<Rightarrow> int \<times> int \<Rightarrow> recommendation list json_str option" where
  "redis_get now r k = map_option fst (lookup now (recs_str r) k)"

text \<open>\<^verbatim>\<open>SETEX key ttl value\<close>: Redis rejects a TTL that is not positive.\<close>

definition redis_setex ::
  "time \<Rightarrow> redis \<Rightarrow> int \<times> int \<Rightarrow> int \<Rightarrow> recommendation list json_str \<Rightarrow> exn + redis" where
  "redis_setex now r k ttl v =
     (if ttl \<le> 0 then Inl ResponseError
      else Inr (r\<lparr>recs_str := (recs_str r)(k \<mapsto> (v, Some (now + ttl))),
                  writes := writes r @ [SETEX (RecsKey (fst k) (snd k)) ttl]\<rparr>))"

subsection \<open>Recommendation cache\<close>

text \<open>
  \<^verbatim>\<open>query_top_k_recommendations_from_neo4j\<close>: the collaborative-filtering query is run
  by Neo4j; its answer on a graph is the parameter \<open>cf\<close>.
\<close>

type_synonym cf_query = "neo4j \<Rightarrow> int \<Rightarrow> int \<Rightarrow> (int \<times> rat) list"

definition query_top_k_recommendations_from_neo4j ::
  "cf_query \<Rightarrow> neo4j \<Rightarrow> int \<Rightarrow> int \<Rightarrow> recommendation list \<times> neo4j" where
  "query_top_k_recommendations_from_neo4j cf driver user_id k =
     (map (\<lambda>(m, p). \<lparr>movie_id = m, predicted_rating = p, title = None\<rparr>) (cf driver user_id k),
      driver\<lparr>runs := runs driver @ [TopK user_id k]\<rparr>)"

definition default_rec_ttl :: int where
  "default_rec_ttl = 600"

definition get_recommendations_for_user ::
  "cf_query \<Rightarrow> time \<Rightarrow> neo4j \<Rightarrow> redis \<Rightarrow> int \<Rightarrow> int \<Rightarrow> int
     \<Rightarrow> (exn + recommendation list) \<times> neo4j \<times> redis" where
  "get_recommendations_for_user cf now driver r user_id k ttl_seconds =
     (case redis_get now r (user_id, k) of
        Some (Dumped recs) \<Rightarrow> (Inr recs, driver, r)
      | _ \<Rightarrow>
          (let (recs, driver') = query_top_k_recommendations_from_neo4j cf driver user_id k
           in case redis_setex now r (user_id, k) ttl_seconds (Dumped recs) of
                Inl e \<Rightarrow> (Inl e, driver', r)
              | Inr r' \<Rightarrow> (Inr recs, driver', r')))"

subsection \<open>Rating-set cache\<close>

text \<open>
  \<^verbatim>\<open>HSET\<close> on \<^verbatim>\<open>user:<u>:ratings\<close>: the fields are merged into a live hash, whose
  expiry time stays as it is; an absent key is created without expiry.
\<close>

definition redis_hset_ratings :: "time \<Rightarrow> redis \<Rightarrow> int \<Rightarrow> (string \<rightharpoonup> rating) \<Rightarrow> redis" where
  "redis_hset_ratings now r u mapping =
     r\<lparr>ratings_hash := (ratings_hash r)(u \<mapsto>
          (case lookup now (ratings_hash r) u of
             None \<Rightarrow> (mapping, None)
           | Some (h, t) \<Rightarrow> (h ++ mapping, t))),
       writes := writes r @ [HSET (RatingsKey u)]\<rparr>"

text \<open>\<^verbatim>\<open>EXPIRE\<close>: no effect on an absent key; a TTL that is not positive deletes the key.\<close>

definition redis_expire_ratings :: "time \<Rightarrow> redis \<Rightarrow> int \<Rightarrow> int \<Rightarrow> redis" where
  "redis_expire_ratings now r u ttl =
     r\<lparr>ratings_hash :=
          (case lookup now (ratings_hash r) u of
             None \<Rightarrow> ratings_hash r
           | Some (h, t) \<Rightarrow>
               if ttl \<le> 0 then (ratings_hash r)(u := None)
               else (ratings_hash r)(u \<mapsto> (h, Some (now + ttl)))),
       writes := writes r @ [EXPIRE (RatingsKey u) ttl]\<rparr>"

definition redis_delete_ratings :: "redis \<Rightarrow> int \<Rightarrow> redis" where
  "redis_delete_ratings r u =
     r\<lparr>ratings_hash := (ratings_hash r)(u := None),
       writes := writes r @ [DEL (RatingsKey u)]\<rparr>"

text \<open>\<^verbatim>\<open>SET key value EX ttl\<close> on \<^verbatim>\<open>user:<u>:ratings:list\<close>.\<close>

definition redis_set_ex ::
  "time \<Rightarrow> redis \<Rightarrow> int \<Rightarrow> rated_movie list json_str \<Rightarrow> int \<Rightarrow> exn + redis" where
  "redis_set_ex now r u v ttl =
     (if ttl \<le> 0 then Inl ResponseError
      else Inr (r\<lparr>ratings_list_str := (ratings_list_str r)(u \<mapsto> (v, Some (now + ttl))),
                  writes := writes r @ [SET_EX (RatingsListKey u) ttl]\<rparr>))"

text \<open>
  The dict comprehension \<^verbatim>\<open>{m["movie_id"]: m["rating"] for m in rated_movies}\<close>: a later
  entry of the list overrides an earlier one with the same id.
\<close>

definition mapping_of :: "rated_movie list \<Rightarrow> (string \<rightharpoonup> rating)" where
  "mapping_of rated_movies = map_of (rev (map (\<lambda>m. (rm_movie_id m, rm_rating m)) rated_movies))"

definition default_ratings_ttl :: int where
  "default_ratings_ttl = 3600"

definition cache_user_rated_movies ::
  "time \<Rightarrow> redis \<Rightarrow> int \<Rightarrow> rated_movie list \<Rightarrow> int \<Rightarrow> (exn + unit) \<times> redis" where
  "cache_user_rated_movies now r user_id rated_movies ttl_seconds =
     (let r1 = (if rated_movies \<noteq> []
                then redis_expire_ratings now
                       (redis_hset_ratings now r user_id (mapping_of rated_movies))
                       user_id ttl_seconds
                else redis_delete_ratings r user_id)
      in case redis_set_ex now r1 user_id (Dumped rated_movies) ttl_seconds of
           Inl e \<Rightarrow> (Inl e, r1)
         | Inr r2 \<Rightarrow> (Inr (), r2))"

text \<open>\<^verbatim>\<open>HGETALL\<close> of an absent key is the empty dict.\<close>

definition get_cached_user_ratings :: "time \<Rightarrow> redis \<Rightarrow> int \<Rightarrow> (string \<rightharpoonup> rating)" where
  "get_cached_user_ratings now r user_id =
     (case lookup now (ratings_hash r) user_id of
        None \<Rightarrow> Map.empty
      | Some (data, t) \<Rightarrow> data)"

subsection \<open>Movie hashes\<close>

definition redis_hget_title :: "time \<Rightarrow> redis \<Rightarrow> string \<Rightarrow> string option" where
  "redis_hget_title now r m =
     (case lookup now (movie_hashes r) m of
        None \<Rightarrow> None
      | Some (h, t) \<Rightarrow> mh_title h)"

definition redis_hset_avg_rating :: "time \<Rightarrow> redis \<Rightarrow> string \<Rightarrow> rat \<Rightarrow> redis" where
  "redis_hset_avg_rating now r m a =
     r\<lparr>movie_hashes := (movie_hashes r)(m \<mapsto>
          (case lookup now (movie_hashes r) m of
             None \<Rightarrow> (\<lparr>mh_movie_id = None, mh_title = None, mh_genres = None,
                        mh_year = None, mh_avg_rating = Some a\<rparr>, None)
           | Some (h, t) \<Rightarrow> (h\<lparr>mh_avg_rating := Some a\<rparr>, t))),
       writes := writes r @ [HSET (MovieKey m)]\<rparr>"

subsection \<open>Full-text search\<close>

text \<open>
  A document returned by RediSearch: its key and the fields read with \<^verbatim>\<open>getattr\<close>
  (\<open>None\<close>: attribute absent). The engine is a parameter: it maps the query string and
  the paging (offset, number) to an exception message or to the total hit count and one
  page of documents. Every query sent to it is recorded in \<open>searches\<close>.
\<close>

record doc =
  doc_id :: string
  doc_movie_id :: "string option"
  doc_title :: "string option"
  doc_genres :: "string option"
  doc_year :: "string option"
  doc_avg_rating :: "string option"

record search_result =
  total :: nat
  docs :: "doc list"

type_synonym engine = "string \<Rightarrow> nat \<Rightarrow> nat \<Rightarrow> string + search_result"

text \<open>
  The outcome of parsing a prompt with \<^verbatim>\<open>int\<close>: the stripped input was empty, was
  rejected with \<^verbatim>\<open>ValueError\<close>, or gave a number.
\<close>

datatype 'a parsed = Blank | Unparsable | Parsed 'a

definition ft_search :: "engine \<Rightarrow> redis \<Rightarrow> string \<Rightarrow> nat \<Rightarrow> nat \<Rightarrow> (string + search_result) \<times> redis" where
  "ft_search ft r query_str off num =
     (ft query_str off num, r\<lparr>searches := searches r @ [(query_str, off, num)]\<rparr>)"

type_synonym demo_row = "string \<times> string \<times> string \<times> string"

datatype demo_outcome =
    DemoEmptySearch
  | DemoSearchError string
  | DemoNoResults nat nat
  | DemoResults nat "demo_row list"

definition getattr :: "'a option \<Rightarrow> 'a \<Rightarrow> 'a" where
  "getattr v d = (case v of None \<Rightarrow> d | Some x \<Rightarrow> x)"

definition redis_fulltext_search_demo ::
  "engine \<Rightarrow> redis \<Rightarrow> string \<Rightarrow> int parsed \<Rightarrow> demo_outcome \<times> redis" where
  "redis_fulltext_search_demo ft r raw max_in =
     (let term = strip raw in
      if term = [] then (DemoEmptySearch, r)
      else
        let max_results = (case max_in of Parsed n \<Rightarrow> n | _ \<Rightarrow> 10);
            max_results = (if max_results < 1 then 1 else max_results);
            max_results = (if max_results > 10 then 10 else max_results);
            query_str = term
        in case ft_search ft r query_str 0 (nat max_results) of
             (Inl e, r') \<Rightarrow> (DemoSearchError e, r')
           | (Inr res, r') \<Rightarrow>
               if total res = 0 \<or> docs res = []
               then (DemoNoResults (total res) (length (docs res)), r')
               else (DemoResults (total res)
                       (map (\<lambda>d. (getattr (doc_movie_id d) ''(none)'', getattr (doc_year d) ''(none)'',
                                   getattr (doc_title d) ''(no title)'',
                                   getattr (doc_genres d) ''(no genres)'')) (docs res)), r'))"

text \<open>
  One printed result of \<^verbatim>\<open>search_movies_with_user_context\<close>. \<open>user_rating = None\<close> stands
  for the printed \<^verbatim>\<open>N/A\<close>; the number formats are not modelled.
\<close>

record result_row =
  row_movie_id :: string
  row_title :: string
  row_genres :: string
  row_avg_rating :: "string option"
  seen :: bool
  user_rating :: "rating option"

datatype search_outcome =
    SearchEmpty
  | SearchError string
  | NoMatches
  | SearchResults nat "result_row list"

definition search_movies_with_user_context ::
  "engine \<Rightarrow> redis \<Rightarrow> int \<Rightarrow> (string \<rightharpoonup> rating) \<Rightarrow> string \<Rightarrow> search_outcome \<times> redis" where
  "search_movies_with_user_context ft r user_id user_ratings raw =
     (let search_term = strip raw in
      if search_term = [] then (SearchEmpty, r)
      else
        let query_str = (if CHR '' '' \<in> set search_term
                         then ''@title:('' @ search_term @ '')''
                         else ''@title:'' @ search_term)
        in case ft_search ft r query_str 0 10 of
             (Inl e, r') \<Rightarrow> (SearchError e, r')
           | (Inr res, r') \<Rightarrow>
               if total res = 0 then (NoMatches, r')
               else (SearchResults (min 10 (total res))
                       (map (\<lambda>d.
                          let redis_id = doc_id d;
                              movie_id = (if take 6 redis_id = ''movie:'' then drop 6 redis_id
                                          else redis_id);
                              has_seen = (user_ratings movie_id \<noteq> None)
                          in \<lparr>row_movie_id = movie_id,
                              row_title = getattr (doc_title d) ''(no title)'',
                              row_genres = getattr (doc_genres d) ''(no genres)'',
                              row_avg_rating = doc_avg_rating d,
                              seen = has_seen,
                              user_rating = (if has_seen then user_ratings movie_id else None)\<rparr>)
                          (docs res)), r'))"

subsection \<open>Top-5 recommendations\<close>

definition display_top_5_recommendations ::
  "cf_query \<Rightarrow> time \<Rightarrow> neo4j \<Rightarrow> redis \<Rightarrow> int \<Rightarrow> (string \<rightharpoonup> rating)
     \<Rightarrow> (exn + recommendation list) \<times> neo4j \<times> redis" where
  "display_top_5_recommendations cf now driver r user_id user_ratings =
     (case get_recommendations_for_user cf now driver r user_id 20 default_rec_ttl of
        (Inl e, driver', r') \<Rightarrow> (Inl e, driver', r')
      | (Inr all_recs, driver', r') \<Rightarrow>
          if all_recs = [] then (Inr [], driver', r')
          else
            let unseen_recs = filter (\<lambda>rec. user_ratings (str_of_int (movie_id rec)) = None) all_recs;
                top_5 = take 5 unseen_recs
            in if top_5 = [] then (Inr [], driver', r')
               else (Inr (map (\<lambda>rec.
                            rec\<lparr>title := Some
                              (case redis_hget_title now r' (str_of_int (movie_id rec)) of
                                 None \<Rightarrow> ''(no title)''
                               | Some t \<Rightarrow> if t = [] then ''(no title)'' else t)\<rparr>) top_5),
                     driver', r'))"

subsection \<open>Rating write path\<close>

text \<open>
  The rating upsert: \<^verbatim>\<open>MATCH\<close> needs both nodes, \<^verbatim>\<open>MERGE\<close> creates the edge when the
  pair has none, and \<^verbatim>\<open>SET\<close> writes rating and \<^verbatim>\<open>ratedAt\<close> on every edge of the pair.
\<close>

definition set_edge ::
  "int \<times> int \<Rightarrow> rating \<times> time \<Rightarrow> ((int \<times> int) \<times> (rating \<times> time)) list
     \<Rightarrow> ((int \<times> int) \<times> (rating \<times> time)) list" where
  "set_edge k v es =
     (if k \<in> set (map fst es) then map (\<lambda>e. if fst e = k then (k, v) else e) es
      else es @ [(k, v)])"

definition upsert_rating :: "time \<Rightarrow> neo4j \<Rightarrow> int \<Rightarrow> int \<Rightarrow> rating \<Rightarrow> neo4j" where
  "upsert_rating now driver u m q =
     driver\<lparr>rated := (if u \<in> set (user_nodes driver) \<and> m \<in> set (movie_nodes driver)
                      then set_edge (u, m) (q, now) (rated driver)
                      else rated driver),
            runs := runs driver @ [UpsertRating u m q]\<rparr>"

text \<open>
  The average query: an aggregation returns exactly one row, whose \<^verbatim>\<open>avg\<close> is null when
  no edge matches.
\<close>

definition avg_rating_query :: "neo4j \<Rightarrow> int \<Rightarrow> rat option \<times> neo4j" where
  "avg_rating_query driver m =
     (let rs = map (\<lambda>e. fst (snd e)) (filter (\<lambda>e. snd (fst e) = m) (rated driver))
      in (if rs = [] then None else Some (sum_list rs / of_nat (length rs)),
          driver\<lparr>runs := runs driver @ [AvgRating m]\<rparr>))"

text \<open>
  The outcome of \<^verbatim>\<open>float(rating_str)\<close>: \<^verbatim>\<open>ValueError\<close>, a float that is no number
  (\<^verbatim>\<open>nan\<close>, \<^verbatim>\<open>inf\<close>, \<^verbatim>\<open>-inf\<close>, for which the range check is false), or a number.
\<close>

datatype rating_input = NotAFloat | NonFinite | Number rat

datatype rate_outcome =
    NoRecommendations
  | RatingCancelled
  | InvalidChoice
  | ChoiceOutOfRange
  | InvalidRating
  | RatingOutOfRange
  | Rated string string rating "rat option"

text \<open>
  \<open>Rated title movie_id rating new_avg\<close> is the confirmation; with \<open>new_avg = None\<close> its
  second line is \<^verbatim>\<open>Average rating could not be recomputed.\<close>

  The function returns the outcome, both stores, and the two Python objects it mutates:
  the list \<open>recommendations\<close> and the dict \<open>user_ratings\<close>.
\<close>

definition rate_movie ::
  "time \<Rightarrow> neo4j \<Rightarrow> redis \<Rightarrow> int \<Rightarrow> recommendation list \<Rightarrow> (string \<rightharpoonup> rating)
     \<Rightarrow> int parsed \<Rightarrow> rating_input
     \<Rightarrow> rate_outcome \<times> neo4j \<times> redis \<times> recommendation list \<times> (string \<rightharpoonup> rating)" where
  "rate_movie now driver r user_id recommendations user_ratings choice rating_in =
     (if recommendations = [] then (NoRecommendations, driver, r, recommendations, user_ratings)
      else case choice of
        Blank \<Rightarrow> (RatingCancelled, driver, r, recommendations, user_ratings)
      | Unparsable \<Rightarrow> (InvalidChoice, driver, r, recommendations, user_ratings)
      | Parsed idx \<Rightarrow>
          if idx < 1 \<or> idx > int (length recommendations)
          then (ChoiceOutOfRange, driver, r, recommendations, user_ratings)
          else
            let movie = recommendations ! nat (idx - 1);
                mid = str_of_int (movie_id movie);
                (title_str, recommendations') =
                  (if title movie = None \<or> title movie = Some [] \<or> title movie = Some ''(no title)''
                   then (case redis_hget_title now r mid of
                           None \<Rightarrow> (''(no title)'', recommendations)
                         | Some title_from_redis \<Rightarrow>
                             if title_from_redis \<noteq> []
                             then (title_from_redis,
                                   recommendations[nat (idx - 1) :=
                                     movie\<lparr>title := Some title_from_redis\<rparr>])
                             else (''(no title)'', recommendations))
                   else (getattr (title movie) [], recommendations))
            in case rating_in of
                 NotAFloat \<Rightarrow> (InvalidRating, driver, r, recommendations', user_ratings)
               | NonFinite \<Rightarrow> (RatingOutOfRange, driver, r, recommendations', user_ratings)
               | Number rating_val \<Rightarrow>
                   if \<not> (1 / 2 \<le> rating_val \<and> rating_val \<le> 5)
                   then (RatingOutOfRange, driver, r, recommendations', user_ratings)
                   else
                     let driver1 = upsert_rating now driver user_id (movie_id movie) rating_val;
                         (new_avg, driver2) = avg_rating_query driver1 (movie_id movie);
                         r1 = (case new_avg of
                                 None \<Rightarrow> r
                               | Some a \<Rightarrow> redis_hset_avg_rating now r mid a);
                         r2 = redis_hset_ratings now r1 user_id [mid \<mapsto> rating_val]
                     in (Rated title_str mid rating_val new_avg, driver2, r2, recommendations',
                         user_ratings(mid \<mapsto> rating_val)))"

text \<open>
  The same function with the answer to the average query of step 2 as a parameter
  \<open>avg_run\<close>: what \<^verbatim>\<open>session.run\<close> followed by \<^verbatim>\<open>single()\<close> gives on the graph that step 1
  left. It is an exception of the driver, which no handler of the program catches, so it
  leaves \<^verbatim>\<open>rate_movie\<close> at that point; or no record (\<open>Inr None\<close>); or a record with its
  \<^verbatim>\<open>avg_rating\<close>, null being \<open>None\<close>. The run is logged in each case. \<open>cypher_avg\<close> is the
  answer of the Cypher query on the modelled graph, for which the function is
  \<^verbatim>\<open>rate_movie\<close> above.
\<close>

datatype driver_error = DriverError string

type_synonym avg_gateway = "neo4j \<Rightarrow> int \<Rightarrow> driver_error + rat option option"

definition cypher_avg :: avg_gateway where
  "cypher_avg driver m = Inr (Some (fst (avg_rating_query driver m)))"

definition rate_movie_gateway ::
  "avg_gateway \<Rightarrow> time \<Rightarrow> neo4j \<Rightarrow> redis \<Rightarrow> int \<Rightarrow> recommendation list
     \<Rightarrow> (string \<rightharpoonup> rating) \<Rightarrow> int parsed \<Rightarrow> rating_input
     \<Rightarrow> (driver_error + rate_outcome) \<times> neo4j \<times> redis \<times> recommendation list
         \<times> (string \<rightharpoonup> rating)" where
  "rate_movie_gateway avg_run now driver r user_id recommendations user_ratings choice rating_in =
     (if recommendations = []
      then (Inr NoRecommendations, driver, r, recommendations, user_ratings)
      else case choice of
        Blank \<Rightarrow> (Inr RatingCancelled, driver, r, recommendations, user_ratings)
      | Unparsable \<Rightarrow> (Inr InvalidChoice, driver, r, recommendations, user_ratings)
      | Parsed idx \<Rightarrow>
          if idx < 1 \<or> idx > int (length recommendations)
          then (Inr ChoiceOutOfRange, driver, r, recommendations, user_ratings)
          else
            let movie = recommendations ! nat (idx - 1);
                mid = str_of_int (movie_id movie);
                (title_str, recommendations') =
                  (if title movie = None \<or> title movie = Some [] \<or> title movie = Some ''(no title)''
                   then (case redis_hget_title now r mid of
                           None \<Rightarrow> (''(no title)'', recommendations)
                         | Some title_from_redis \<Rightarrow>
                             if title_from_redis \<noteq> []
                             then (title_from_redis,
                                   recommendations[nat (idx - 1) :=
                                     movie\<lparr>title := Some title_from_redis\<rparr>])
                             else (''(no title)'', recommendations))
                   else (getattr (title movie) [], recommendations))
            in case rating_in of
                 NotAFloat \<Rightarrow> (Inr InvalidRating, driver, r, recommendations', user_ratings)
               | NonFinite \<Rightarrow> (Inr RatingOutOfRange, driver, r, recommendations', user_ratings)
               | Number rating_val \<Rightarrow>
                   if \<not> (1 / 2 \<le> rating_val \<and> rating_val \<le> 5)
                   then (Inr RatingOutOfRange, driver, r, recommendations', user_ratings)
                   else
                     let driver1 = upsert_rating now driver user_id (movie_id movie) rating_val;
                         driver2 = driver1\<lparr>runs := runs driver1 @ [AvgRating (movie_id movie)]\<rparr>
                     in case avg_run driver1 (movie_id movie) of
                          Inl e \<Rightarrow> (Inl e, driver2, r, recommendations', user_ratings)
                        | Inr avg_record \<Rightarrow>
                            let new_avg = (case avg_record of None \<Rightarrow> None | Some a \<Rightarrow> a);
                                r1 = (case new_avg of
                                        None \<Rightarrow> r
                                      | Some a \<Rightarrow> redis_hset_avg_rating now r mid a);
                                r2 = redis_hset_ratings now r1 user_id [mid \<mapsto> rating_val]
                            in (Inr (Rated title_str mid rating_val new_avg), driver2, r2,
                                recommendations', user_ratings(mid \<mapsto> rating_val)))"

subsection \<open>Example states\<close>

text \<open>Concrete stores, engines and query answers on which the theorems below are run.\<close>

definition empty_redis :: redis where
  "empty_redis = \<lparr>recs_str = Map.empty, ratings_hash = Map.empty, ratings_list_str = Map.empty,
                   movie_hashes = Map.empty, writes = [], searches = []\<rparr>"

definition small_graph :: neo4j where
  "small_graph = \<lparr>user_nodes = [1, 2, 3, 12], movie_nodes = [7, 8],
                   rated = [((2, 7), (4, 0)), ((3, 7), (5, 0))], runs = []\<rparr>"

text \<open>A collaborative-filtering answer that leaves out what the user has rated.\<close>

definition cf_fixture :: cf_query where
  "cf_fixture = (\<lambda>g u k. filter (\<lambda>(m, p). (u, m) \<notin> set (map fst (rated g))) [(7, 9 / 2), (8, 4)])"

definition no_hits :: engine where
  "no_hits = (\<lambda>q off num. Inr \<lparr>total = 0, docs = []\<rparr>)"

definition star_engine :: engine where
  "star_engine = (\<lambda>q off num. Inr \<lparr>total = 1, docs =
     [\<lparr>doc_id = ''movie:7'', doc_movie_id = Some ''7'', doc_title = Some ''Star Wars'',
       doc_genres = Some ''Sci-Fi'', doc_year = Some ''1977'', doc_avg_rating = None\<rparr>]\<rparr>)"

text \<open>
  A session of user 1 that starts at time 0 with one rated movie, as
  \<^verbatim>\<open>run_user_application\<close> starts it: the ratings are cached, then read back into the
  dict \<open>user_ratings\<close> that the session keeps.
\<close>

definition star_wars_rated :: "rated_movie list" where
  "star_wars_rated = [\<lparr>rm_movie_id = ''7'', rm_title = Some ''Star Wars'', rm_rating = 4\<rparr>]"

definition session_redis :: redis where
  "session_redis = snd (cache_user_rated_movies 0 empty_redis 1 star_wars_rated default_ratings_ttl)"

definition session_user_ratings :: "string \<rightharpoonup> rating" where
  "session_user_ratings = get_cached_user_ratings 0 session_redis 1"

text \<open>
  Two sessions of user 1 on the same stores. Session A starts at time 0 with no ratings
  and shows its recommendations at time 10; session B rates movie 7 at time 20.
\<close>

definition a_redis :: redis where
  "a_redis = snd (cache_user_rated_movies 0 empty_redis 1 [] default_ratings_ttl)"

definition a_user_ratings :: "string \<rightharpoonup> rating" where
  "a_user_ratings = get_cached_user_ratings 0 a_redis 1"

definition a_shown :: "(exn + recommendation list) \<times> neo4j \<times> redis" where
  "a_shown = display_top_5_recommendations cf_fixture 10 small_graph a_redis 1 a_user_ratings"

definition b_rated ::
  "rate_outcome \<times> neo4j \<times> redis \<times> recommendation list \<times> (string \<rightharpoonup> rating)" where
  "b_rated = rate_movie 20 (fst (snd a_shown)) (snd (snd a_shown)) 1
               [\<lparr>movie_id = 7, predicted_rating = 9 / 2, title = None\<rparr>] Map.empty
               (Parsed 1) (Number 4)"

text \<open>Two answers to the average query: no record, and a driver that raises.\<close>

definition no_record_avg :: avg_gateway where
  "no_record_avg = (\<lambda>driver m. Inr None)"

definition failing_avg :: avg_gateway where
  "failing_avg = (\<lambda>driver m. Inl (DriverError ''ServiceUnavailable''))"

section \<open>Properties\<close>

subsection \<open>Auxiliary facts\<close>

lemma str_of_int_digit:
  "str_of_int 7 = ''7''" "str_of_int 8 = ''8''" "str_of_int 9 = ''9''"
  by (simp_all add: str_of_int_def digits_of.simps digit_char_def)

lemma strip_star: "strip ''star'' = ''star''" "strip '' star wars '' = ''star wars''"
  by (simp_all add: strip_def py_isspace_def)

lemma strip_nbsp: "strip [CHR 0xA0, CHR ''s'', CHR 0x85] = ''s''"
  by (simp add: strip_def py_isspace_def)

lemma lookup_absent [simp]: "m k = None \<Longrightarrow> lookup now m k = None"
  by (simp add: lookup_def)

lemma lookup_upd_same:
  "lookup t (m(k \<mapsto> (v, Some e))) k = (if t < e then Some (v, Some e) else None)"
  by (simp add: lookup_def live_def)

lemma lookup_hset_ratings:
  "lookup now (ratings_hash (redis_hset_ratings now r u mp)) u =
     Some (case lookup now (ratings_hash r) u of None \<Rightarrow> (mp, None) | Some (h, t) \<Rightarrow> (h ++ mp, t))"
  by (auto simp add: redis_hset_ratings_def lookup_def live_def split: option.splits if_splits)

lemma get_cached_hset_ratings:
  "get_cached_user_ratings now (redis_hset_ratings now r u mp) u =
     get_cached_user_ratings now r u ++ mp"
  by (simp add: get_cached_user_ratings_def lookup_hset_ratings split: option.splits)

lemma lookup_expire_ratings:
  "0 < ttl \<Longrightarrow>
   lookup now (ratings_hash (redis_expire_ratings now r u ttl)) u =
     map_option (\<lambda>e. (fst e, Some (now + ttl))) (lookup now (ratings_hash r) u)"
  by (auto simp add: redis_expire_ratings_def lookup_def live_def split: option.splits)

lemma avg_rating_query_snd:
  "snd (avg_rating_query d m) = d\<lparr>runs := runs d @ [AvgRating m]\<rparr>"
  by (simp add: avg_rating_query_def Let_def)

lemma mapping_of_None: "mapping_of ms e = None \<longleftrightarrow> e \<notin> set (map rm_movie_id ms)"
  by (simp add: mapping_of_def map_of_eq_None_iff image_image)

lemma in_set_take_filter: "x \<in> set (take n (filter P xs)) \<Longrightarrow> P x"
  using set_take_subset [of n "filter P xs"] by auto

text \<open>With the default TTL the recommendation lookup always returns a list.\<close>

lemma get_recommendations_default_returns:
  "\<exists>recs driver' r'.
     get_recommendations_for_user cf now driver r user_id k default_rec_ttl = (Inr recs, driver', r')
     \<and> ratings_hash r' = ratings_hash r"
  by (auto simp add: get_recommendations_for_user_def redis_setex_def default_rec_ttl_def
        query_top_k_recommendations_from_neo4j_def
      split: option.splits json_str.splits)

text \<open>What \<^verbatim>\<open>rate_movie\<close> returns when the choice and the rating are accepted.\<close>

lemma rate_movie_accepted:
  assumes "recommendations \<noteq> []" "1 \<le> idx" "idx \<le> int (length recommendations)"
    and "1 / 2 \<le> q" "q \<le> 5"
  shows "\<exists>t recs'. rate_movie now driver r user_id recommendations user_ratings (Parsed idx) (Number q) =
     (let movie = recommendations ! nat (idx - 1);
          mid = str_of_int (movie_id movie);
          driver1 = upsert_rating now driver user_id (movie_id movie) q;
          new_avg = fst (avg_rating_query driver1 (movie_id movie));
          r1 = (case new_avg of None \<Rightarrow> r | Some a \<Rightarrow> redis_hset_avg_rating now r mid a)
      in (Rated t mid q new_avg, snd (avg_rating_query driver1 (movie_id movie)),
          redis_hset_ratings now r1 user_id [mid \<mapsto> q], recs', user_ratings(mid \<mapsto> q)))"
  using assms
  by (simp add: rate_movie_def Let_def split: prod.splits option.splits)

text \<open>After a load with a positive TTL the cached mapping is the old one overridden by the list.\<close>

lemma get_cached_after_cache:
  assumes "rated_movies \<noteq> []" "0 < ttl_seconds"
  shows "get_cached_user_ratings now
           (snd (cache_user_rated_movies now r user_id rated_movies ttl_seconds)) user_id
         = get_cached_user_ratings now r user_id ++ mapping_of rated_movies"
proof -
  have "ratings_hash (snd (cache_user_rated_movies now r user_id rated_movies ttl_seconds))
        = ratings_hash (redis_expire_ratings now
            (redis_hset_ratings now r user_id (mapping_of rated_movies)) user_id ttl_seconds)"
    using assms by (simp add: cache_user_rated_movies_def redis_set_ex_def Let_def)
  then show ?thesis
    using assms(2)
    by (simp add: get_cached_user_ratings_def lookup_expire_ratings lookup_hset_ratings
        split: option.splits)
qed

text \<open>The values of the example states.\<close>

lemma session_redis_value:
  "session_redis =
     empty_redis\<lparr>ratings_hash := [1 \<mapsto> ([''7'' \<mapsto> 4], Some 3600)],
                 ratings_list_str := [1 \<mapsto> (Dumped star_wars_rated, Some 3600)],
                 writes := [HSET (RatingsKey 1), EXPIRE (RatingsKey 1) 3600,
                            SET_EX (RatingsListKey 1) 3600]\<rparr>"
  by (simp add: session_redis_def cache_user_rated_movies_def star_wars_rated_def
      default_ratings_ttl_def redis_set_ex_def redis_expire_ratings_def redis_hset_ratings_def
      empty_redis_def mapping_of_def lookup_def live_def Let_def)

lemma session_redis_ratings_hash:
  "ratings_hash session_redis = [1 \<mapsto> ([''7'' \<mapsto> 4], Some 3600)]"
  by (simp add: session_redis_value)

lemma session_user_ratings_value: "session_user_ratings = [''7'' \<mapsto> 4]"
  by (simp add: session_user_ratings_def get_cached_user_ratings_def session_redis_ratings_hash
      lookup_def live_def)

lemma a_redis_value:
  "a_redis = empty_redis\<lparr>ratings_list_str := [1 \<mapsto> (Dumped [], Some 3600)],
                        writes := [DEL (RatingsKey 1), SET_EX (RatingsListKey 1) 3600]\<rparr>"
  by (simp add: a_redis_def cache_user_rated_movies_def default_ratings_ttl_def redis_set_ex_def
      redis_delete_ratings_def empty_redis_def)

lemma a_user_ratings_empty: "a_user_ratings = Map.empty"
  by (simp add: a_user_ratings_def a_redis_value get_cached_user_ratings_def empty_redis_def)

lemma a_shown_value:
  "a_shown =
     (Inr [\<lparr>movie_id = 7, predicted_rating = 9 / 2, title = Some ''(no title)''\<rparr>,
           \<lparr>movie_id = 8, predicted_rating = 4, title = Some ''(no title)''\<rparr>],
      small_graph\<lparr>runs := [TopK 1 20]\<rparr>,
      a_redis\<lparr>recs_str := [(1, 20) \<mapsto>
                  (Dumped [\<lparr>movie_id = 7, predicted_rating = 9 / 2, title = None\<rparr>,
                           \<lparr>movie_id = 8, predicted_rating = 4, title = None\<rparr>], Some 610)],
              writes := [DEL (RatingsKey 1), SET_EX (RatingsListKey 1) 3600,
                         SETEX (RecsKey 1 20) 600]\<rparr>)"
  by (simp add: a_shown_def display_top_5_recommendations_def get_recommendations_for_user_def
      redis_get_def redis_setex_def default_rec_ttl_def query_top_k_recommendations_from_neo4j_def
      cf_fixture_def small_graph_def a_redis_value a_user_ratings_empty empty_redis_def
      redis_hget_title_def Let_def)

lemma b_rated_value:
  "b_rated =
     (Rated ''(no title)'' ''7'' 4 (Some (13 / 3)),
      small_graph\<lparr>rated := [((2, 7), (4, 0)), ((3, 7), (5, 0)), ((1, 7), (4, 20))],
                  runs := [TopK 1 20, UpsertRating 1 7 4, AvgRating 7]\<rparr>,
      a_redis\<lparr>recs_str := [(1, 20) \<mapsto>
                  (Dumped [\<lparr>movie_id = 7, predicted_rating = 9 / 2, title = None\<rparr>,
                           \<lparr>movie_id = 8, predicted_rating = 4, title = None\<rparr>], Some 610)],
              ratings_hash := [1 \<mapsto> ([''7'' \<mapsto> 4], None)],
              movie_hashes := [''7'' \<mapsto> (\<lparr>mh_movie_id = None, mh_title = None, mh_genres = None,
                                             mh_year = None, mh_avg_rating = Some (13 / 3)\<rparr>, None)],
              writes := [DEL (RatingsKey 1), SET_EX (RatingsListKey 1) 3600,
                         SETEX (RecsKey 1 20) 600, HSET (MovieKey ''7''), HSET (RatingsKey 1)]\<rparr>,
      [\<lparr>movie_id = 7, predicted_rating = 9 / 2, title = None\<rparr>],
      [''7'' \<mapsto> 4])"
  by (simp add: b_rated_def a_shown_value rate_movie_def str_of_int_digit redis_hget_title_def
      upsert_rating_def set_edge_def avg_rating_query_def redis_hset_avg_rating_def
      redis_hset_ratings_def small_graph_def a_redis_value empty_redis_def Let_def)

text \<open>The function with a gateway: its Cypher instance, and what it returns when accepted.\<close>

lemma rate_movie_gateway_cypher:
  "rate_movie_gateway cypher_avg now driver r user_id recommendations user_ratings choice rating_in
   = (case rate_movie now driver r user_id recommendations user_ratings choice rating_in of
        (out, rest) \<Rightarrow> (Inr out, rest))"
  by (cases rating_in; cases choice)
     (simp_all add: rate_movie_gateway_def rate_movie_def cypher_avg_def avg_rating_query_def
        Let_def split: prod.splits option.splits)

lemma set_edge_member: "(k, v) \<in> set (set_edge k v es)"
proof (cases "k \<in> set (map fst es)")
  case True
  then obtain e where "e \<in> set es" and "fst e = k"
    by auto
  then have "(k, v) \<in> (\<lambda>e. if fst e = k then (k, v) else e) ` set es"
    by (intro image_eqI [of _ _ e]) simp_all
  then show ?thesis
    using True by (simp add: set_edge_def)
next
  case False
  then show ?thesis
    by (simp add: set_edge_def)
qed

lemma rate_movie_gateway_accepted:
  assumes "recommendations \<noteq> []" "1 \<le> idx" "idx \<le> int (length recommendations)"
    and "1 / 2 \<le> q" "q \<le> 5"
    and "m = movie_id (recommendations ! nat (idx - 1))"
    and "d1 = upsert_rating now driver user_id m q"
    and "d2 = d1\<lparr>runs := runs d1 @ [AvgRating m]\<rparr>"
  shows "\<exists>t recs'.
     rate_movie_gateway avg_run now driver r user_id recommendations user_ratings
       (Parsed idx) (Number q) =
     (case avg_run d1 m of
        Inl e \<Rightarrow> (Inl e, d2, r, recs', user_ratings)
      | Inr avg_record \<Rightarrow>
          (Inr (Rated t (str_of_int m) q (case avg_record of None \<Rightarrow> None | Some a \<Rightarrow> a)), d2,
           redis_hset_ratings now
             (case (case avg_record of None \<Rightarrow> None | Some a \<Rightarrow> a) of
                None \<Rightarrow> r
              | Some a \<Rightarrow> redis_hset_avg_rating now r (str_of_int m) a)
             user_id [str_of_int m \<mapsto> q],
           recs', user_ratings(str_of_int m \<mapsto> q)))"
  using assms
  by (simp add: rate_movie_gateway_def Let_def split: prod.splits option.splits sum.splits)

lemma no_record_rated_value:
  "rate_movie_gateway no_record_avg 100 small_graph empty_redis 12
     [\<lparr>movie_id = 7, predicted_rating = 9 / 2, title = None\<rparr>] Map.empty (Parsed 1) (Number 3)
   = (Inr (Rated ''(no title)'' ''7'' 3 None),
      small_graph\<lparr>rated := [((2, 7), (4, 0)), ((3, 7), (5, 0)), ((12, 7), (3, 100))],
                  runs := [UpsertRating 12 7 3, AvgRating 7]\<rparr>,
      empty_redis\<lparr>ratings_hash := [12 \<mapsto> ([''7'' \<mapsto> 3], None)],
                  writes := [HSET (RatingsKey 12)]\<rparr>,
      [\<lparr>movie_id = 7, predicted_rating = 9 / 2, title = None\<rparr>],
      [''7'' \<mapsto> 3])"
  by (simp add: rate_movie_gateway_def no_record_avg_def str_of_int_digit redis_hget_title_def
      upsert_rating_def set_edge_def redis_hset_ratings_def small_graph_def empty_redis_def
      Let_def)

lemma failing_rated_value:
  "rate_movie_gateway failing_avg 100 small_graph empty_redis 12
     [\<lparr>movie_id = 7, predicted_rating = 9 / 2, title = None\<rparr>] Map.empty (Parsed 1) (Number 3)
   = (Inl (DriverError ''ServiceUnavailable''),
      small_graph\<lparr>rated := [((2, 7), (4, 0)), ((3, 7), (5, 0)), ((12, 7), (3, 100))],
                  runs := [UpsertRating 12 7 3, AvgRating 7]\<rparr>,
      empty_redis,
      [\<lparr>movie_id = 7, predicted_rating = 9 / 2, title = None\<rparr>],
      Map.empty)"
  by (simp add: rate_movie_gateway_def failing_avg_def str_of_int_digit redis_hget_title_def
      upsert_rating_def set_edge_def small_graph_def empty_redis_def Let_def)

subsection \<open>Recommendation cache\<close>

text \<open>
  C2. A call of \<^verbatim>\<open>get_recommendations_for_user\<close> (default TTL, 600 seconds) that finds no
  live cache entry for \<open>(user_id, k)\<close> runs exactly one Neo4j query, sends exactly one
  write to Redis, a \<^verbatim>\<open>SETEX\<close> that stores the returned list as it is under the key of
  \<open>(user_id, k)\<close> to expire 600 seconds later, and returns the list. A call at any later
  time before the expiry returns the same list and changes neither store: no query and no
  write. Nothing depends on the list, so an empty list is cached like any other.
\<close>

theorem get_recommendations_cache_aside:
  assumes "lookup now (recs_str r) (user_id, k) = None"
  shows "let recs = fst (query_top_k_recommendations_from_neo4j cf driver user_id k);
             driver1 = driver\<lparr>runs := runs driver @ [TopK user_id k]\<rparr>;
             r1 = r\<lparr>recs_str := (recs_str r)((user_id, k) \<mapsto> (Dumped recs, Some (now + 600))),
                    writes := writes r @ [SETEX (RecsKey user_id k) 600]\<rparr>
         in get_recommendations_for_user cf now driver r user_id k default_rec_ttl
              = (Inr recs, driver1, r1)
            \<and> (\<forall>t. now \<le> t \<and> t < now + 600 \<longrightarrow>
                 get_recommendations_for_user cf t driver1 r1 user_id k default_rec_ttl
                   = (Inr recs, driver1, r1))"
  using assms
  by (simp add: Let_def get_recommendations_for_user_def redis_get_def redis_setex_def
      query_top_k_recommendations_from_neo4j_def default_rec_ttl_def lookup_upd_same)

text \<open>
  The scenario of user 42 with an empty collaborative-filtering answer: the empty list is
  cached at time 1000 until 1600, and the call at time 1599 is answered from the cache.
\<close>

theorem get_recommendations_cache_aside_witness:
  "lookup 1000 (recs_str empty_redis) (42, 10) = None
   \<and> get_recommendations_for_user (\<lambda>g u k. []) 1000 small_graph empty_redis 42 10 default_rec_ttl
       = (Inr [], small_graph\<lparr>runs := [TopK 42 10]\<rparr>,
          empty_redis\<lparr>recs_str := [(42, 10) \<mapsto> (Dumped [], Some 1600)],
                      writes := [SETEX (RecsKey 42 10) 600]\<rparr>)
   \<and> get_recommendations_for_user (\<lambda>g u k. []) 1599
         (small_graph\<lparr>runs := [TopK 42 10]\<rparr>)
         (empty_redis\<lparr>recs_str := [(42, 10) \<mapsto> (Dumped [], Some 1600)],
                      writes := [SETEX (RecsKey 42 10) 600]\<rparr>) 42 10 default_rec_ttl
       = (Inr [], small_graph\<lparr>runs := [TopK 42 10]\<rparr>,
          empty_redis\<lparr>recs_str := [(42, 10) \<mapsto> (Dumped [], Some 1600)],
                      writes := [SETEX (RecsKey 42 10) 600]\<rparr>)"
  using get_recommendations_cache_aside [of 1000 empty_redis 42 10 "\<lambda>g u k. []" small_graph]
  by (simp add: Let_def empty_redis_def small_graph_def query_top_k_recommendations_from_neo4j_def)

subsection \<open>Top-5 recommendations\<close>

text \<open>
  C1, as the code has it. \<^verbatim>\<open>display_top_5_recommendations\<close> always returns a list, of at
  most five recommendations, and none of them has an id that is a key of the dict
  \<open>user_ratings\<close> passed by the caller: the filter runs on every call, after the cache
  lookup, against that dict. The cached mapping of the user is not read. So the list is
  free of the ids in the cached mapping whenever every key of the cached mapping is a
  key of \<open>user_ratings\<close>.
\<close>

theorem display_top_5_excludes_session_ratings:
  "\<exists>top_5.
     fst (display_top_5_recommendations cf now driver r user_id user_ratings) = Inr top_5
     \<and> length top_5 \<le> 5
     \<and> (\<forall>rec \<in> set top_5. user_ratings (str_of_int (movie_id rec)) = None)
     \<and> (dom (get_cached_user_ratings now r user_id) \<subseteq> dom user_ratings \<longrightarrow>
          (\<forall>rec \<in> set top_5.
             get_cached_user_ratings now r user_id (str_of_int (movie_id rec)) = None))"
proof -
  obtain recs driver' r' where g:
    "get_recommendations_for_user cf now driver r user_id 20 default_rec_ttl = (Inr recs, driver', r')"
    using get_recommendations_default_returns by blast
  define top_5 where
    "top_5 = take 5 (filter (\<lambda>rec. user_ratings (str_of_int (movie_id rec)) = None) recs)"
  define shown where
    "shown = (if recs = [] \<or> top_5 = [] then []
              else map (\<lambda>rec. rec\<lparr>title := Some
                  (case redis_hget_title now r' (str_of_int (movie_id rec)) of
                     None \<Rightarrow> ''(no title)''
                   | Some t \<Rightarrow> if t = [] then ''(no title)'' else t)\<rparr>) top_5)"
  have res: "fst (display_top_5_recommendations cf now driver r user_id user_ratings) = Inr shown"
    by (simp add: display_top_5_recommendations_def g Let_def shown_def top_5_def)
  have len: "length shown \<le> 5"
    by (simp add: shown_def top_5_def)
  have excl: "user_ratings (str_of_int (movie_id rec)) = None" if "rec \<in> set shown" for rec
  proof -
    from that obtain x where "x \<in> set top_5" and "movie_id rec = movie_id x"
      by (auto simp add: shown_def split: if_splits)
    then show ?thesis
      using in_set_take_filter [of x 5 _ recs] by (simp add: top_5_def)
  qed
  have "get_cached_user_ratings now r user_id (str_of_int (movie_id rec)) = None"
    if "dom (get_cached_user_ratings now r user_id) \<subseteq> dom user_ratings" and "rec \<in> set shown"
    for rec
    using that excl [of rec] by (auto simp add: dom_def)
  with res len excl show ?thesis by blast
qed

text \<open>
  The session of user 1 that has rated movie 7: of the candidates 7 and 8, movie 8 is
  returned.
\<close>

theorem display_top_5_excludes_session_ratings_witness:
  "get_cached_user_ratings 10 session_redis 1 = [''7'' \<mapsto> 4]
   \<and> session_user_ratings = [''7'' \<mapsto> 4]
   \<and> fst (display_top_5_recommendations cf_fixture 10 small_graph session_redis 1
            session_user_ratings)
       = Inr [\<lparr>movie_id = 8, predicted_rating = 4, title = Some ''(no title)''\<rparr>]
   \<and> get_cached_user_ratings 10 session_redis 1 (str_of_int 8) = None"
proof -
  have cached: "get_cached_user_ratings 10 session_redis 1 = [''7'' \<mapsto> 4]"
    by (simp add: get_cached_user_ratings_def session_redis_ratings_hash lookup_def live_def)
  then have sub: "dom (get_cached_user_ratings 10 session_redis 1) \<subseteq> dom session_user_ratings"
    by (simp add: session_user_ratings_value)
  have shown: "fst (display_top_5_recommendations cf_fixture 10 small_graph session_redis 1
                      session_user_ratings)
               = Inr [\<lparr>movie_id = 8, predicted_rating = 4, title = Some ''(no title)''\<rparr>]"
    by (simp add: display_top_5_recommendations_def get_recommendations_for_user_def
        redis_get_def redis_setex_def default_rec_ttl_def
        query_top_k_recommendations_from_neo4j_def cf_fixture_def small_graph_def
        session_redis_value empty_redis_def str_of_int_digit session_user_ratings_value
        redis_hget_title_def Let_def)
  from display_top_5_excludes_session_ratings
         [of cf_fixture 10 small_graph session_redis 1 session_user_ratings] sub shown
  have "get_cached_user_ratings 10 session_redis 1 (str_of_int 8) = None"
    by auto
  with cached shown show ?thesis
    by (simp add: session_user_ratings_value)
qed

text \<open>
  C1, as the claim states it, fails. Session A of user 1 cached its recommendations at
  time 10 and holds an empty \<open>user_ratings\<close>; at time 20 session B of the same user rated
  movie 7, which put the movie into the cached mapping. At time 30 session A is shown
  movie 7 although the cached mapping of user 1 holds it at that time.
\<close>

theorem display_top_5_returns_cached_rated_movie:
  "fst (display_top_5_recommendations cf_fixture 30 (fst (snd b_rated)) (fst (snd (snd b_rated))) 1
          a_user_ratings)
     = Inr [\<lparr>movie_id = 7, predicted_rating = 9 / 2, title = Some ''(no title)''\<rparr>,
            \<lparr>movie_id = 8, predicted_rating = 4, title = Some ''(no title)''\<rparr>]
   \<and> get_cached_user_ratings 30 (fst (snd (snd b_rated))) 1 ''7'' = Some 4"
  by (simp add: b_rated_value display_top_5_recommendations_def get_recommendations_for_user_def
      redis_get_def lookup_def live_def a_user_ratings_empty str_of_int_digit redis_hget_title_def
      get_cached_user_ratings_def a_redis_value empty_redis_def Let_def)

subsection \<open>Rating write path\<close>

text \<open>
  C3, as the code has it. Take an accepted choice and rating. Whatever the average query
  of step 2 answers, the graph after the call is the one the upsert of step 1 left, so
  the edge of the user and the movie carries the new rating when both nodes exist:
  nothing is rolled back. When the query returns no average (no record, or a null
  \<^verbatim>\<open>avg_rating\<close>), step 3 is skipped: the movie hashes are unchanged, the only Redis
  write is the \<^verbatim>\<open>HSET\<close> on the rating hash of the user, the confirmation carries no
  average (the line \<^verbatim>\<open>Average rating could not be recomputed.\<close>), and the rating is in
  the cached mapping and in the dict \<open>user_ratings\<close>. When the query raises, the exception
  reaches the caller: steps 3 and 4 are skipped, so Redis and the dict are as they were.
\<close>

theorem rate_movie_without_average:
  assumes "recommendations \<noteq> []" "1 \<le> idx" "idx \<le> int (length recommendations)"
    and "1 / 2 \<le> q" "q \<le> 5"
    and "m = movie_id (recommendations ! nat (idx - 1))"
  shows "case rate_movie_gateway avg_run now driver r user_id recommendations user_ratings
                (Parsed idx) (Number q) of
           (out, driver', r', recs', user_ratings') \<Rightarrow>
             rated driver' = rated (upsert_rating now driver user_id m q)
             \<and> runs driver' = runs driver @ [UpsertRating user_id m q, AvgRating m]
             \<and> (user_id \<in> set (user_nodes driver) \<and> m \<in> set (movie_nodes driver) \<longrightarrow>
                  ((user_id, m), (q, now)) \<in> set (rated driver'))
             \<and> (avg_run (upsert_rating now driver user_id m q) m = Inr None
                  \<or> avg_run (upsert_rating now driver user_id m q) m = Inr (Some None) \<longrightarrow>
                  (\<exists>t. out = Inr (Rated t (str_of_int m) q None))
                  \<and> movie_hashes r' = movie_hashes r
                  \<and> writes r' = writes r @ [HSET (RatingsKey user_id)]
                  \<and> get_cached_user_ratings now r' user_id (str_of_int m) = Some q
                  \<and> user_ratings' (str_of_int m) = Some q)
             \<and> (\<forall>e. avg_run (upsert_rating now driver user_id m q) m = Inl e \<longrightarrow>
                  out = Inl e \<and> r' = r \<and> user_ratings' = user_ratings)"
proof -
  define d1 where "d1 = upsert_rating now driver user_id m q"
  define d2 where "d2 = d1\<lparr>runs := runs d1 @ [AvgRating m]\<rparr>"
  have graph: "rated d2 = rated d1"
    and log: "runs d2 = runs driver @ [UpsertRating user_id m q, AvgRating m]"
    by (simp_all add: d2_def d1_def upsert_rating_def)
  have edge: "((user_id, m), (q, now)) \<in> set (rated d2)"
    if "user_id \<in> set (user_nodes driver) \<and> m \<in> set (movie_nodes driver)"
    using that set_edge_member [of "(user_id, m)" "(q, now)" "rated driver"]
    by (simp add: d2_def d1_def upsert_rating_def)
  from rate_movie_gateway_accepted [OF assms d1_def d2_def]
  obtain t recs' where res:
    "rate_movie_gateway avg_run now driver r user_id recommendations user_ratings
       (Parsed idx) (Number q) =
     (case avg_run d1 m of
        Inl e \<Rightarrow> (Inl e, d2, r, recs', user_ratings)
      | Inr avg_record \<Rightarrow>
          (Inr (Rated t (str_of_int m) q (case avg_record of None \<Rightarrow> None | Some a \<Rightarrow> a)), d2,
           redis_hset_ratings now
             (case (case avg_record of None \<Rightarrow> None | Some a \<Rightarrow> a) of
                None \<Rightarrow> r
              | Some a \<Rightarrow> redis_hset_avg_rating now r (str_of_int m) a)
             user_id [str_of_int m \<mapsto> q],
           recs', user_ratings(str_of_int m \<mapsto> q)))"
    by blast
  have cached: "get_cached_user_ratings now
                  (redis_hset_ratings now r user_id [str_of_int m \<mapsto> q]) user_id (str_of_int m)
                = Some q"
    by (simp add: get_cached_hset_ratings)
  have same: "movie_hashes (redis_hset_ratings now r user_id [str_of_int m \<mapsto> q]) = movie_hashes r"
    and wr: "writes (redis_hset_ratings now r user_id [str_of_int m \<mapsto> q])
             = writes r @ [HSET (RatingsKey user_id)]"
    by (simp_all add: redis_hset_ratings_def)
  show ?thesis
  proof (cases "avg_run d1 m")
    case (Inl e)
    then show ?thesis
      using graph log edge unfolding res d1_def [symmetric] by simp
  next
    case (Inr avg_record)
    then show ?thesis
      using graph log edge cached same wr unfolding res d1_def [symmetric]
      by (cases avg_record) auto
  qed
qed

text \<open>
  User 12 rates movie 7 with 3 at time 100; both nodes exist. With no record the edge is
  written, the confirmation has no average and the cached mapping has the rating. With a
  driver that raises the edge is written too, and Redis stays empty.
\<close>

theorem rate_movie_without_average_witness:
  "no_record_avg (upsert_rating 100 small_graph 12 7 3) 7 = Inr None
   \<and> fst (rate_movie_gateway no_record_avg 100 small_graph empty_redis 12
            [\<lparr>movie_id = 7, predicted_rating = 9 / 2, title = None\<rparr>] Map.empty
            (Parsed 1) (Number 3))
       = Inr (Rated ''(no title)'' ''7'' 3 None)
   \<and> ((12, 7), (3, 100)) \<in> set (rated (fst (snd
         (rate_movie_gateway no_record_avg 100 small_graph empty_redis 12
            [\<lparr>movie_id = 7, predicted_rating = 9 / 2, title = None\<rparr>] Map.empty
            (Parsed 1) (Number 3)))))
   \<and> get_cached_user_ratings 100 (fst (snd (snd
         (rate_movie_gateway no_record_avg 100 small_graph empty_redis 12
            [\<lparr>movie_id = 7, predicted_rating = 9 / 2, title = None\<rparr>] Map.empty
            (Parsed 1) (Number 3))))) 12 ''7'' = Some 3
   \<and> failing_avg (upsert_rating 100 small_graph 12 7 3) 7 = Inl (DriverError ''ServiceUnavailable'')
   \<and> fst (rate_movie_gateway failing_avg 100 small_graph empty_redis 12
            [\<lparr>movie_id = 7, predicted_rating = 9 / 2, title = None\<rparr>] Map.empty
            (Parsed 1) (Number 3))
       = Inl (DriverError ''ServiceUnavailable'')
   \<and> ((12, 7), (3, 100)) \<in> set (rated (fst (snd
         (rate_movie_gateway failing_avg 100 small_graph empty_redis 12
            [\<lparr>movie_id = 7, predicted_rating = 9 / 2, title = None\<rparr>] Map.empty
            (Parsed 1) (Number 3)))))
   \<and> fst (snd (snd
         (rate_movie_gateway failing_avg 100 small_graph empty_redis 12
            [\<lparr>movie_id = 7, predicted_rating = 9 / 2, title = None\<rparr>] Map.empty
            (Parsed 1) (Number 3)))) = empty_redis"
proof -
  have nodes: "12 \<in> set (user_nodes small_graph) \<and> 7 \<in> set (movie_nodes small_graph)"
    by (simp add: small_graph_def)
  have a: "no_record_avg (upsert_rating 100 small_graph 12 7 3) 7 = Inr None"
    by (simp add: no_record_avg_def)
  have b: "failing_avg (upsert_rating 100 small_graph 12 7 3) 7 = Inl (DriverError ''ServiceUnavailable'')"
    by (simp add: failing_avg_def)
  have ta: "fst (rate_movie_gateway no_record_avg 100 small_graph empty_redis 12
            [\<lparr>movie_id = 7, predicted_rating = 9 / 2, title = None\<rparr>] Map.empty
            (Parsed 1) (Number 3)) = Inr (Rated ''(no title)'' ''7'' 3 None)"
    by (simp add: no_record_rated_value)
  from rate_movie_without_average
         [where recommendations = "[\<lparr>movie_id = 7, predicted_rating = 9 / 2, title = None\<rparr>]"
            and idx = 1 and q = 3 and m = 7 and avg_run = no_record_avg and now = 100
            and driver = small_graph and r = empty_redis and user_id = 12
            and user_ratings = Map.empty]
       rate_movie_without_average
         [where recommendations = "[\<lparr>movie_id = 7, predicted_rating = 9 / 2, title = None\<rparr>]"
            and idx = 1 and q = 3 and m = 7 and avg_run = failing_avg and now = 100
            and driver = small_graph and r = empty_redis and user_id = 12
            and user_ratings = Map.empty]
       nodes a b ta
  show ?thesis
    by (auto simp add: str_of_int_digit split: prod.splits)
qed

text \<open>
  C3, as the claim states it, fails when the average query raises: the caller gets the
  exception instead of the message, and the rating hash of user 12 is not updated,
  although the edge of step 1 is in the graph.
\<close>

theorem rate_movie_raises_without_cache_update:
  "fst (rate_movie_gateway failing_avg 100 small_graph empty_redis 12
          [\<lparr>movie_id = 7, predicted_rating = 9 / 2, title = None\<rparr>] Map.empty
          (Parsed 1) (Number 3))
     = Inl (DriverError ''ServiceUnavailable'')
   \<and> ((12, 7), (3, 100)) \<in> set (rated (fst (snd
         (rate_movie_gateway failing_avg 100 small_graph empty_redis 12
            [\<lparr>movie_id = 7, predicted_rating = 9 / 2, title = None\<rparr>] Map.empty
            (Parsed 1) (Number 3)))))
   \<and> get_cached_user_ratings 100 (fst (snd (snd
         (rate_movie_gateway failing_avg 100 small_graph empty_redis 12
            [\<lparr>movie_id = 7, predicted_rating = 9 / 2, title = None\<rparr>] Map.empty
            (Parsed 1) (Number 3))))) 12 ''7'' = None"
  unfolding failing_rated_value
  by (simp add: get_cached_user_ratings_def empty_redis_def)

text \<open>
  C4. When the choice is in range and the rating \<open>q\<close> lies in \<open>[0.5, 5.0]\<close>, \<^verbatim>\<open>rate_movie\<close>
  completes with the confirmation for the chosen movie, and \<^verbatim>\<open>get_cached_user_ratings\<close>
  at the same time maps the movie to \<open>q\<close>, whatever expiry the hash has. The list keys
  \<^verbatim>\<open>user:<u>:ratings:list\<close> are as they were.
\<close>

theorem rate_movie_updates_rating_cache:
  assumes "recommendations \<noteq> []" "1 \<le> idx" "idx \<le> int (length recommendations)"
    and "1 / 2 \<le> q" "q \<le> 5"
    and "mid = str_of_int (movie_id (recommendations ! nat (idx - 1)))"
  shows "case rate_movie now driver r user_id recommendations user_ratings (Parsed idx) (Number q) of
           (out, driver', r', recs', user_ratings') \<Rightarrow>
             (\<exists>t a. out = Rated t mid q a)
             \<and> get_cached_user_ratings now r' user_id mid = Some q
             \<and> ratings_list_str r' = ratings_list_str r"
proof -
  from rate_movie_accepted [OF assms(1-5), of now driver r user_id user_ratings]
  obtain t recs' a r1 d2 where
    "rate_movie now driver r user_id recommendations user_ratings (Parsed idx) (Number q) =
       (Rated t mid q a, d2, redis_hset_ratings now r1 user_id [mid \<mapsto> q], recs',
        user_ratings(mid \<mapsto> q))"
    and "ratings_list_str r1 = ratings_list_str r"
    using assms(6)
    by (auto simp add: Let_def redis_hset_avg_rating_def split: option.splits)
  then show ?thesis
    by (simp add: get_cached_hset_ratings) (simp add: redis_hset_ratings_def)
qed

text \<open>
  The session of user 1, who rated movie 7 with 4 at time 0, rates it again with 3 at
  time 50: the mapping has 3, and the list still has the entry with 4.
\<close>

theorem rate_movie_updates_rating_cache_witness:
  "[\<lparr>movie_id = 7, predicted_rating = 9 / 2, title = None\<rparr>] \<noteq> []
   \<and> (1::int) \<le> 1
   \<and> 1 \<le> int (length [\<lparr>movie_id = 7, predicted_rating = 9 / 2, title = None\<rparr>])
   \<and> (1 / 2 :: rat) \<le> 3 \<and> (3::rat) \<le> 5
   \<and> ''7'' = str_of_int (movie_id ([\<lparr>movie_id = 7, predicted_rating = 9 / 2, title = None\<rparr>]
                                     ! nat (1 - 1)))
   \<and> (case rate_movie 50 small_graph session_redis 1
               [\<lparr>movie_id = 7, predicted_rating = 9 / 2, title = None\<rparr>] session_user_ratings
               (Parsed 1) (Number 3) of
         (out, driver', r', recs', user_ratings') \<Rightarrow>
           (\<exists>t a. out = Rated t ''7'' 3 a)
           \<and> get_cached_user_ratings 50 r' 1 ''7'' = Some 3
           \<and> ratings_list_str r' = ratings_list_str session_redis)
   \<and> ratings_list_str session_redis 1 = Some (Dumped star_wars_rated, Some 3600)"
proof -
  have "case rate_movie 50 small_graph session_redis 1
               [\<lparr>movie_id = 7, predicted_rating = 9 / 2, title = None\<rparr>] session_user_ratings
               (Parsed 1) (Number 3) of
         (out, driver', r', recs', user_ratings') \<Rightarrow>
           (\<exists>t a. out = Rated t ''7'' 3 a)
           \<and> get_cached_user_ratings 50 r' 1 ''7'' = Some 3
           \<and> ratings_list_str r' = ratings_list_str session_redis"
    by (rule rate_movie_updates_rating_cache) (simp_all add: str_of_int_digit)
  then show ?thesis
    by (simp add: str_of_int_digit session_redis_value)
qed

text \<open>
  C8. When the rating is not a float, is no number, or lies outside \<open>[0.5, 5.0]\<close>,
  \<^verbatim>\<open>rate_movie\<close> returns one of its rejections and leaves everything as it was: the graph
  with its query log (no upsert, no average query), the whole Redis store with its write
  log, and the dict \<open>user_ratings\<close>.
\<close>

theorem rate_movie_rejects_invalid_rating:
  assumes "\<forall>q. rating_in = Number q \<longrightarrow> \<not> (1 / 2 \<le> q \<and> q \<le> 5)"
  shows "case rate_movie now driver r user_id recommendations user_ratings choice rating_in of
           (out, driver', r', recs', user_ratings') \<Rightarrow>
             driver' = driver \<and> r' = r \<and> user_ratings' = user_ratings
             \<and> out \<in> {NoRecommendations, RatingCancelled, InvalidChoice, ChoiceOutOfRange,
                       InvalidRating, RatingOutOfRange}"
  using assms
  by (cases rating_in; cases choice)
     (auto simp add: rate_movie_def Let_def split: prod.splits option.splits)

text \<open>User 1 enters the rating 6 for movie 7.\<close>

theorem rate_movie_rejects_invalid_rating_witness:
  "rate_movie 50 small_graph session_redis 1
     [\<lparr>movie_id = 7, predicted_rating = 9 / 2, title = None\<rparr>] session_user_ratings
     (Parsed 1) (Number 6)
   = (RatingOutOfRange, small_graph, session_redis,
      [\<lparr>movie_id = 7, predicted_rating = 9 / 2, title = None\<rparr>], session_user_ratings)"
proof -
  have h: "\<forall>q. Number 6 = Number q \<longrightarrow> \<not> (1 / 2 \<le> q \<and> q \<le> 5)"
    by simp
  have out: "fst (rate_movie 50 small_graph session_redis 1
        [\<lparr>movie_id = 7, predicted_rating = 9 / 2, title = None\<rparr>] session_user_ratings
        (Parsed 1) (Number 6)) = RatingOutOfRange"
    and recs: "fst (snd (snd (snd (rate_movie 50 small_graph session_redis 1
        [\<lparr>movie_id = 7, predicted_rating = 9 / 2, title = None\<rparr>] session_user_ratings
        (Parsed 1) (Number 6))))) = [\<lparr>movie_id = 7, predicted_rating = 9 / 2, title = None\<rparr>]"
    by (simp_all add: rate_movie_def Let_def str_of_int_digit redis_hget_title_def
        session_redis_value empty_redis_def)
  have "case rate_movie 50 small_graph session_redis 1
        [\<lparr>movie_id = 7, predicted_rating = 9 / 2, title = None\<rparr>] session_user_ratings
        (Parsed 1) (Number 6) of
           (out, driver', r', recs', user_ratings') \<Rightarrow>
             driver' = small_graph \<and> r' = session_redis \<and> user_ratings' = session_user_ratings
             \<and> out \<in> {NoRecommendations, RatingCancelled, InvalidChoice, ChoiceOutOfRange,
                       InvalidRating, RatingOutOfRange}"
    by (rule rate_movie_rejects_invalid_rating [OF h])
  with out recs show ?thesis
    by (auto split: prod.splits)
qed

text \<open>
  C9. Step 4 of an accepted \<^verbatim>\<open>rate_movie\<close> sends a plain \<^verbatim>\<open>HSET\<close> to the rating hash of
  the user and no \<^verbatim>\<open>EXPIRE\<close>: the Redis writes of the call are that \<^verbatim>\<open>HSET\<close>, preceded by
  at most the \<^verbatim>\<open>HSET\<close> of the average. A live hash keeps its expiry time as it is (set or
  not) and gains the field. An absent or expired hash is recreated with the one field
  and no expiry, so the field is read back at every later time.
\<close>

theorem rate_movie_keeps_hash_ttl:
  assumes "recommendations \<noteq> []" "1 \<le> idx" "idx \<le> int (length recommendations)"
    and "1 / 2 \<le> q" "q \<le> 5"
    and "mid = str_of_int (movie_id (recommendations ! nat (idx - 1)))"
  shows "case rate_movie now driver r user_id recommendations user_ratings (Parsed idx) (Number q) of
           (out, driver', r', recs', user_ratings') \<Rightarrow>
             (\<forall>h t. lookup now (ratings_hash r) user_id = Some (h, t) \<longrightarrow>
                ratings_hash r' user_id = Some (h(mid \<mapsto> q), t))
             \<and> (lookup now (ratings_hash r) user_id = None \<longrightarrow>
                  ratings_hash r' user_id = Some ([mid \<mapsto> q], None)
                  \<and> (\<forall>t'. get_cached_user_ratings t' r' user_id mid = Some q))
             \<and> (\<exists>ws. writes r' = writes r @ ws @ [HSET (RatingsKey user_id)]
                      \<and> (ws = [] \<or> ws = [HSET (MovieKey mid)]))"
proof -
  from rate_movie_accepted [OF assms(1-5), of now driver r user_id user_ratings]
  obtain t recs' a r1 d2 ws where
    "rate_movie now driver r user_id recommendations user_ratings (Parsed idx) (Number q) =
       (Rated t mid q a, d2, redis_hset_ratings now r1 user_id [mid \<mapsto> q], recs',
        user_ratings(mid \<mapsto> q))"
    and "ratings_hash r1 = ratings_hash r" and "writes r1 = writes r @ ws"
    and "ws = [] \<or> ws = [HSET (MovieKey mid)]"
    using assms(6)
    by (auto simp add: Let_def redis_hset_avg_rating_def split: option.splits)
  then show ?thesis
    by (auto simp add: redis_hset_ratings_def get_cached_user_ratings_def lookup_def live_def)
qed

text \<open>
  Both cases for user 1 and movie 7. At time 50 the hash cached at time 0 is live and
  keeps its expiry time 3600. At time 4000 it has expired: the hash is recreated without
  expiry.
\<close>

theorem rate_movie_keeps_hash_ttl_witness:
  "lookup 50 (ratings_hash session_redis) 1 = Some ([''7'' \<mapsto> 4], Some 3600)
   \<and> ratings_hash (fst (snd (snd (rate_movie 50 small_graph session_redis 1
         [\<lparr>movie_id = 7, predicted_rating = 9 / 2, title = None\<rparr>] session_user_ratings
         (Parsed 1) (Number 3))))) 1
       = Some ([''7'' \<mapsto> 3], Some 3600)
   \<and> lookup 4000 (ratings_hash session_redis) 1 = None
   \<and> ratings_hash (fst (snd (snd (rate_movie 4000 small_graph session_redis 1
         [\<lparr>movie_id = 7, predicted_rating = 9 / 2, title = None\<rparr>] session_user_ratings
         (Parsed 1) (Number 3))))) 1
       = Some ([''7'' \<mapsto> 3], None)"
proof -
  have live: "lookup 50 (ratings_hash session_redis) 1 = Some ([''7'' \<mapsto> 4], Some 3600)"
    and dead: "lookup 4000 (ratings_hash session_redis) 1 = None"
    by (simp_all add: session_redis_ratings_hash lookup_def live_def)
  have "case rate_movie 50 small_graph session_redis 1
         [\<lparr>movie_id = 7, predicted_rating = 9 / 2, title = None\<rparr>] session_user_ratings
         (Parsed 1) (Number 3) of
           (out, driver', r', recs', user_ratings') \<Rightarrow>
             (\<forall>h t. lookup 50 (ratings_hash session_redis) 1 = Some (h, t) \<longrightarrow>
                ratings_hash r' 1 = Some (h(''7'' \<mapsto> 3), t))
             \<and> (lookup 50 (ratings_hash session_redis) 1 = None \<longrightarrow>
                  ratings_hash r' 1 = Some ([''7'' \<mapsto> 3], None)
                  \<and> (\<forall>t'. get_cached_user_ratings t' r' 1 ''7'' = Some 3))
             \<and> (\<exists>ws. writes r' = writes session_redis @ ws @ [HSET (RatingsKey 1)]
                      \<and> (ws = [] \<or> ws = [HSET (MovieKey ''7'')]))"
    by (rule rate_movie_keeps_hash_ttl) (simp_all add: str_of_int_digit)
  moreover have "case rate_movie 4000 small_graph session_redis 1
         [\<lparr>movie_id = 7, predicted_rating = 9 / 2, title = None\<rparr>] session_user_ratings
         (Parsed 1) (Number 3) of
           (out, driver', r', recs', user_ratings') \<Rightarrow>
             (\<forall>h t. lookup 4000 (ratings_hash session_redis) 1 = Some (h, t) \<longrightarrow>
                ratings_hash r' 1 = Some (h(''7'' \<mapsto> 3), t))
             \<and> (lookup 4000 (ratings_hash session_redis) 1 = None \<longrightarrow>
                  ratings_hash r' 1 = Some ([''7'' \<mapsto> 3], None)
                  \<and> (\<forall>t'. get_cached_user_ratings t' r' 1 ''7'' = Some 3))
             \<and> (\<exists>ws. writes r' = writes session_redis @ ws @ [HSET (RatingsKey 1)]
                      \<and> (ws = [] \<or> ws = [HSET (MovieKey ''7'')]))"
    by (rule rate_movie_keeps_hash_ttl) (simp_all add: str_of_int_digit)
  ultimately show ?thesis
    using live dead by (auto split: prod.splits)
qed

subsection \<open>Rating-set cache\<close>

text \<open>
  C5. With the default TTL (3600 seconds), \<^verbatim>\<open>cache_user_rated_movies\<close> on an empty list
  deletes the rating hash of the user, so the key is absent and
  \<^verbatim>\<open>get_cached_user_ratings\<close> gives the empty dict, and it writes the list key as the
  serialized empty list expiring after 3600 seconds. On a non-empty list it writes the
  hash (the list's mapping merged over the live fields) and the list key as the
  serialized list, both expiring after 3600 seconds.
\<close>

theorem cache_user_rated_movies_representations:
  "(case cache_user_rated_movies now r user_id [] default_ratings_ttl of
      (res, r') \<Rightarrow>
        res = Inr () \<and> ratings_hash r' user_id = None
        \<and> get_cached_user_ratings now r' user_id = Map.empty
        \<and> ratings_list_str r' user_id = Some (Dumped [], Some (now + 3600))
        \<and> writes r' = writes r @ [DEL (RatingsKey user_id), SET_EX (RatingsListKey user_id) 3600])
   \<and> (rated_movies \<noteq> [] \<longrightarrow>
       (case cache_user_rated_movies now r user_id rated_movies default_ratings_ttl of
          (res, r') \<Rightarrow>
            res = Inr ()
            \<and> ratings_hash r' user_id =
                Some (get_cached_user_ratings now r user_id ++ mapping_of rated_movies,
                      Some (now + 3600))
            \<and> ratings_list_str r' user_id = Some (Dumped rated_movies, Some (now + 3600))
            \<and> writes r' = writes r @ [HSET (RatingsKey user_id), EXPIRE (RatingsKey user_id) 3600,
                                       SET_EX (RatingsListKey user_id) 3600]))"
  by (auto simp add: cache_user_rated_movies_def default_ratings_ttl_def redis_set_ex_def
        redis_delete_ratings_def redis_expire_ratings_def lookup_hset_ratings
        get_cached_user_ratings_def Let_def
      split: option.splits)
     (auto simp add: redis_hset_ratings_def)

text \<open>
  User 1 at time 100: an empty load on the store that holds the hash of movie 7 removes
  the hash; a load of the one rated movie on the empty store writes both keys.
\<close>

theorem cache_user_rated_movies_representations_witness:
  "ratings_hash session_redis 1 = Some ([''7'' \<mapsto> 4], Some 3600)
   \<and> ratings_hash (snd (cache_user_rated_movies 100 session_redis 1 [] default_ratings_ttl)) 1
       = None
   \<and> ratings_list_str (snd (cache_user_rated_movies 100 session_redis 1 [] default_ratings_ttl)) 1
       = Some (Dumped [], Some 3700)
   \<and> star_wars_rated \<noteq> []
   \<and> ratings_hash (snd (cache_user_rated_movies 100 empty_redis 1 star_wars_rated
                            default_ratings_ttl)) 1
       = Some ([''7'' \<mapsto> 4], Some 3700)
   \<and> ratings_list_str (snd (cache_user_rated_movies 100 empty_redis 1 star_wars_rated
                            default_ratings_ttl)) 1
       = Some (Dumped star_wars_rated, Some 3700)"
proof -
  have ne: "star_wars_rated \<noteq> []"
    by (simp add: star_wars_rated_def)
  have mp: "get_cached_user_ratings 100 empty_redis 1 ++ mapping_of star_wars_rated = [''7'' \<mapsto> 4]"
    by (simp add: get_cached_user_ratings_def empty_redis_def mapping_of_def star_wars_rated_def)
  from cache_user_rated_movies_representations
         [where now = 100 and r = session_redis and user_id = 1 and rated_movies = star_wars_rated]
       cache_user_rated_movies_representations
         [where now = 100 and r = empty_redis and user_id = 1 and rated_movies = star_wars_rated]
       ne mp
  show ?thesis
    by (auto simp add: session_redis_ratings_hash split: prod.splits)
qed

text \<open>
  C10. With a non-empty list and a positive TTL, \<^verbatim>\<open>cache_user_rated_movies\<close> merges into
  the live hash: a field of the cached mapping whose id does not occur in the list is
  still in the cached mapping after the call, with its rating.
\<close>

theorem cache_user_rated_movies_merges:
  assumes "rated_movies \<noteq> []" "0 < ttl_seconds"
    and "get_cached_user_ratings now r user_id e = Some v"
    and "e \<notin> set (map rm_movie_id rated_movies)"
  shows "get_cached_user_ratings now
           (snd (cache_user_rated_movies now r user_id rated_movies ttl_seconds)) user_id e = Some v"
proof -
  have "mapping_of rated_movies e = None"
    using assms(4) by (simp add: mapping_of_None)
  then show ?thesis
    using assms(1-3) by (simp add: get_cached_after_cache map_add_def)
qed

text \<open>
  The hash of user 1 holds movie 7; a load at time 100 of a list with movie 8 alone
  leaves movie 7 in the mapping.
\<close>

theorem cache_user_rated_movies_merges_witness:
  "[\<lparr>rm_movie_id = ''8'', rm_title = Some ''Alien'', rm_rating = 5\<rparr>] \<noteq> []
   \<and> (0::int) < 3600
   \<and> get_cached_user_ratings 100 session_redis 1 ''7'' = Some 4
   \<and> ''7'' \<notin> set (map rm_movie_id [\<lparr>rm_movie_id = ''8'', rm_title = Some ''Alien'', rm_rating = 5\<rparr>])
   \<and> get_cached_user_ratings 100
        (snd (cache_user_rated_movies 100 session_redis 1
                [\<lparr>rm_movie_id = ''8'', rm_title = Some ''Alien'', rm_rating = 5\<rparr>] 3600)) 1 ''7''
       = Some 4"
proof -
  have old: "get_cached_user_ratings 100 session_redis 1 ''7'' = Some 4"
    by (simp add: get_cached_user_ratings_def session_redis_ratings_hash lookup_def live_def)
  have "get_cached_user_ratings 100
        (snd (cache_user_rated_movies 100 session_redis 1
                [\<lparr>rm_movie_id = ''8'', rm_title = Some ''Alien'', rm_rating = 5\<rparr>] 3600)) 1 ''7''
       = Some 4"
    by (rule cache_user_rated_movies_merges) (simp_all add: old)
  with old show ?thesis by simp
qed

subsection \<open>Search\<close>

text \<open>
  C7, as the code has it. \<^verbatim>\<open>redis_fulltext_search_demo\<close> sends the stripped input to the
  engine as it is, with offset 0 and a page size between 1 and 10.
  \<^verbatim>\<open>search_movies_with_user_context\<close> restricts the query to the title field: it sends
  \<^verbatim>\<open>@title:\<close> followed by the stripped input, which it wraps in parentheses when the input
  contains a space, with offset 0 and page size 10; it adds no wildcard and escapes
  nothing. Neither function sends a query when the stripped input is empty.
\<close>

theorem search_query_strings:
  "(\<exists>n. 1 \<le> n \<and> n \<le> 10 \<and>
        searches (snd (redis_fulltext_search_demo ft r raw max_in)) =
          searches r @ (if strip raw = [] then [] else [(strip raw, 0, n)]))
   \<and> searches (snd (search_movies_with_user_context ft r user_id user_ratings raw)) =
       searches r @ (if strip raw = [] then []
                     else if CHR '' '' \<in> set (strip raw)
                          then [(''@title:('' @ strip raw @ '')'', 0, 10)]
                          else [(''@title:'' @ strip raw, 0, 10)])"
proof (intro conjI)
  show "\<exists>n. 1 \<le> n \<and> n \<le> 10 \<and>
        searches (snd (redis_fulltext_search_demo ft r raw max_in)) =
          searches r @ (if strip raw = [] then [] else [(strip raw, 0, n)])"
  proof (cases "strip raw = []")
    case True
    then show ?thesis
      by (intro exI [of _ 1]) (simp add: redis_fulltext_search_demo_def)
  next
    case False
    define m where "m = (case max_in of Parsed n \<Rightarrow> n | _ \<Rightarrow> (10::int))"
    define n where "n = nat (if (if m < 1 then 1 else m) > 10 then 10 else (if m < 1 then 1 else m))"
    have "1 \<le> n \<and> n \<le> 10" by (auto simp add: n_def)
    moreover have "searches (snd (redis_fulltext_search_demo ft r raw max_in)) =
          searches r @ [(strip raw, 0, n)]"
      using False
      by (simp add: redis_fulltext_search_demo_def Let_def ft_search_def n_def m_def
          split: sum.splits prod.splits)
    ultimately show ?thesis using False by auto
  qed
next
  show "searches (snd (search_movies_with_user_context ft r user_id user_ratings raw)) =
       searches r @ (if strip raw = [] then []
                     else if CHR '' '' \<in> set (strip raw)
                          then [(''@title:('' @ strip raw @ '')'', 0, 10)]
                          else [(''@title:'' @ strip raw, 0, 10)])"
    by (simp add: search_movies_with_user_context_def Let_def ft_search_def
        split: sum.splits prod.splits)
qed

text \<open>
  C7, as the claim states it, fails: for the input \<^verbatim>\<open>star\<close> the query sent by
  \<^verbatim>\<open>search_movies_with_user_context\<close> is \<^verbatim>\<open>@title:star\<close>, not \<^verbatim>\<open>star\<close>.
\<close>

theorem search_query_not_passed_through:
  "searches (snd (search_movies_with_user_context no_hits empty_redis 1 Map.empty ''star''))
     = [(''@title:star'', 0, 10)]
   \<and> searches (snd (search_movies_with_user_context no_hits empty_redis 1 Map.empty ''star''))
     \<noteq> [(''star'', 0, 10)]"
  by (simp add: search_movies_with_user_context_def Let_def ft_search_def strip_star
      no_hits_def empty_redis_def)

text \<open>
  C6, as the code has it. For every document of a non-empty search result
  \<^verbatim>\<open>search_movies_with_user_context\<close> returns one row, in order; the id of the row is
  the document key without its prefix \<^verbatim>\<open>movie:\<close>, \<open>seen\<close> says whether that id is a key of
  the dict \<open>user_ratings\<close> passed by the caller, and \<open>user_rating\<close> is the dict's rating for
  the id, absent when the id is not a key. The join is computed on every call from that
  dict; the cached mapping is not read.
\<close>

theorem search_annotates_from_user_ratings:
  assumes "strip raw \<noteq> []"
    and "ft (if CHR '' '' \<in> set (strip raw) then ''@title:('' @ strip raw @ '')''
             else ''@title:'' @ strip raw) 0 10 = Inr res"
    and "total res \<noteq> 0"
  shows "\<exists>n rows.
           fst (search_movies_with_user_context ft r user_id user_ratings raw) = SearchResults n rows
           \<and> length rows = length (docs res)
           \<and> (\<forall>i < length rows.
                 row_movie_id (rows ! i) =
                   (if take 6 (doc_id (docs res ! i)) = ''movie:'' then drop 6 (doc_id (docs res ! i))
                    else doc_id (docs res ! i))
                 \<and> seen (rows ! i) = (user_ratings (row_movie_id (rows ! i)) \<noteq> None)
                 \<and> user_rating (rows ! i) = user_ratings (row_movie_id (rows ! i)))"
  using assms
  by (auto simp add: search_movies_with_user_context_def Let_def ft_search_def)

text \<open>The session of user 1 searches \<^verbatim>\<open>star\<close>: movie 7 is found and marked as seen.\<close>

theorem search_annotates_from_user_ratings_witness:
  "strip ''star'' = ''star''
   \<and> star_engine ''@title:star'' 0 10 = Inr \<lparr>total = 1, docs =
        [\<lparr>doc_id = ''movie:7'', doc_movie_id = Some ''7'', doc_title = Some ''Star Wars'',
          doc_genres = Some ''Sci-Fi'', doc_year = Some ''1977'', doc_avg_rating = None\<rparr>]\<rparr>
   \<and> session_user_ratings ''7'' = Some 4
   \<and> (\<exists>n rows.
         fst (search_movies_with_user_context star_engine session_redis 1 session_user_ratings
                ''star'') = SearchResults n rows
         \<and> length rows = 1 \<and> row_movie_id (rows ! 0) = ''7''
         \<and> seen (rows ! 0) = True \<and> user_rating (rows ! 0) = Some 4)"
proof -
  define res where "res = \<lparr>total = 1, docs =
     [\<lparr>doc_id = ''movie:7'', doc_movie_id = Some ''7'', doc_title = Some ''Star Wars'',
       doc_genres = Some ''Sci-Fi'', doc_year = Some ''1977'', doc_avg_rating = None\<rparr>]\<rparr>"
  have h1: "strip ''star'' \<noteq> []"
    by (simp add: strip_star)
  have h2: "star_engine (if CHR '' '' \<in> set (strip ''star'') then ''@title:('' @ strip ''star'' @ '')''
                   else ''@title:'' @ strip ''star'') 0 10 = Inr res"
    by (simp add: star_engine_def res_def)
  have h3: "total res \<noteq> 0"
    by (simp add: res_def)
  from search_annotates_from_user_ratings
         [where raw = "''star''" and ft = star_engine and res = res and r = session_redis
            and user_id = 1 and user_ratings = session_user_ratings, OF h1 h2 h3]
  obtain n rows where
    "fst (search_movies_with_user_context star_engine session_redis 1 session_user_ratings
            ''star'') = SearchResults n rows"
    and "length rows = 1" and "row_movie_id (rows ! 0) = ''7''"
    and "seen (rows ! 0) = (session_user_ratings ''7'' \<noteq> None)"
    and "user_rating (rows ! 0) = session_user_ratings ''7''"
    by (auto simp add: res_def)
  then show ?thesis
    by (auto simp add: strip_star star_engine_def session_user_ratings_value)
qed

text \<open>
  C6, as the claim states it, fails. The session of user 1 cached the rating of movie 7
  at time 0 with the TTL of 3600 seconds and keeps the dict it read back then. From time
  3600 on the cached mapping of user 1 is empty, and a search of that session still
  marks movie 7 as seen with the rating 4.
\<close>

theorem search_seen_from_captured_ratings:
  "fst (search_movies_with_user_context star_engine session_redis 1 session_user_ratings ''star'')
     = SearchResults 1 [\<lparr>row_movie_id = ''7'', row_title = ''Star Wars'', row_genres = ''Sci-Fi'',
                          row_avg_rating = None, seen = True, user_rating = Some 4\<rparr>]
   \<and> get_cached_user_ratings 3600 session_redis 1 ''7'' = None"
  by (simp add: search_movies_with_user_context_def Let_def ft_search_def strip_star
      star_engine_def getattr_def session_user_ratings_value get_cached_user_ratings_def
      session_redis_ratings_hash lookup_def live_def)

end
